theory Spec2Isabelle
  imports Main "HOL-Library.Word"
begin

section \<open>Data model\<close>

text \<open>
  Modelled from the spec: \<open>legate::Type::Code\<close> is declared outside the sources at hand.
  Section 3 of the specification lists the closed set of primitive element types
  (boolean; signed and unsigned integers of 8, 16, 32 and 64 bits; floating point of
  16, 32 and 64 bits; complex of 64 and 128 bits); the source compares a code against
  \<open>FIXED_ARRAY\<close>, the first of the composite codes, to tell the primitive ones apart.
\<close>

datatype type_code =
    BOOL | INT8 | INT16 | INT32 | INT64 | UINT8 | UINT16 | UINT32 | UINT64
  | FLOAT16 | FLOAT32 | FLOAT64 | COMPLEX64 | COMPLEX128
  | FIXED_ARRAY | STRUCT | STRING

text \<open>The position of a code in the enumeration: \<open>static_cast<int32_t>(type->code)\<close>.\<close>

fun code_int :: "type_code \<Rightarrow> int" where
  "code_int BOOL = 0"
| "code_int INT8 = 1"
| "code_int INT16 = 2"
| "code_int INT32 = 3"
| "code_int INT64 = 4"
| "code_int UINT8 = 5"
| "code_int UINT16 = 6"
| "code_int UINT32 = 7"
| "code_int UINT64 = 8"
| "code_int FLOAT16 = 9"
| "code_int FLOAT32 = 10"
| "code_int FLOAT64 = 11"
| "code_int COMPLEX64 = 12"
| "code_int COMPLEX128 = 13"
| "code_int FIXED_ARRAY = 14"
| "code_int STRUCT = 15"
| "code_int STRING = 16"

text \<open>
  Modelled from the spec: the fixed byte size of each primitive element type
  (section 3, "Fixed byte-size per tag"); composite codes have no fixed size.
\<close>

fun byte_size :: "type_code \<Rightarrow> nat option" where
  "byte_size BOOL = Some 1"
| "byte_size INT8 = Some 1"
| "byte_size INT16 = Some 2"
| "byte_size INT32 = Some 4"
| "byte_size INT64 = Some 8"
| "byte_size UINT8 = Some 1"
| "byte_size UINT16 = Some 2"
| "byte_size UINT32 = Some 4"
| "byte_size UINT64 = Some 8"
| "byte_size FLOAT16 = Some 2"
| "byte_size FLOAT32 = Some 4"
| "byte_size FLOAT64 = Some 8"
| "byte_size COMPLEX64 = Some 8"
| "byte_size COMPLEX128 = Some 16"
| "byte_size FIXED_ARRAY = None"
| "byte_size STRUCT = None"
| "byte_size STRING = None"

text \<open>
  Modelled from the spec: class \<open>NDArray\<close> is declared outside the sources at hand.
  Section 3 describes an array handle as a shape, an element type and an opaque reference
  to storage owned by the runtime; the operations below read only \<open>shape()\<close>,
  \<open>type()\<close> and \<open>dim()\<close>, the rank. Extents are \<open>size_t\<close> values that the code only
  compares, so they are natural numbers here.
\<close>

record NDArray =
  shape :: "nat list"
  type :: type_code

definition dim :: "NDArray \<Rightarrow> nat" where
  "dim a = length (shape a)"

text \<open>
  The ways an operation of the source fails: the three exception classes it throws, the
  assertion of debug builds, and \<open>LEGATE_ABORT\<close> after a diagnostic on standard error
  (the format string and its arguments). The last two end the process; only the
  exceptions unwind to the caller.
\<close>

datatype error =
    StdException
  | InvalidArgument string
  | TaskException string
  | AssertionFailure string
  | LegateAbort string "nat list"

fun is_exception :: "error \<Rightarrow> bool" where
  "is_exception StdException = True"
| "is_exception (InvalidArgument m) = True"
| "is_exception (TaskException m) = True"
| "is_exception (AssertionFailure c) = False"
| "is_exception (LegateAbort f args) = False"

text \<open>
  The message an exception object was constructed with; \<open>std::exception()\<close> is
  constructed without any.
\<close>

fun message :: "error \<Rightarrow> string option" where
  "message StdException = None"
| "message (InvalidArgument m) = Some m"
| "message (TaskException m) = Some m"
| "message (AssertionFailure c) = Some c"
| "message (LegateAbort f args) = Some f"

section \<open>Broadcast shape resolution (operators.cc)\<close>

text \<open>
  The inner loop of \<open>broadcast_shapes\<close>: two reverse iterators, \<open>in_it\<close> over the
  shape of an input and \<open>out_it\<close> over the result, advance together until either is
  exhausted. Both lists are given back to front; the result is the updated \<open>result\<close>
  vector, back to front, or the exception thrown.
\<close>

fun walk :: "nat list \<Rightarrow> nat list \<Rightarrow> error + nat list" where
  "walk (i # ins) (out # outs) =
     (if 1 = out then
        (case walk ins outs of Inl e \<Rightarrow> Inl e | Inr r \<Rightarrow> Inr (i # r))
      else if i \<noteq> 1 \<and> out \<noteq> i then Inl StdException
      else
        (case walk ins outs of Inl e \<Rightarrow> Inl e | Inr r \<Rightarrow> Inr (out # r)))"
| "walk [] outs = Inr outs"
| "walk (i # ins) [] = Inr []"

text \<open>The outer loop over the arrays, each walked against the result so far.\<close>

fun broadcast_loop :: "NDArray list \<Rightarrow> nat list \<Rightarrow> error + nat list" where
  "broadcast_loop [] result = Inr result"
| "broadcast_loop (array # arrays) result =
     (case walk (rev (shape array)) (rev result) of
        Inl e \<Rightarrow> Inl e
      | Inr r \<Rightarrow> broadcast_loop arrays (rev r))"

text \<open>
  The macros of the build that decide what \<open>broadcast_shapes\<close> compiles to:
  \<open>DEBUG_CUNUMERIC\<close> guards the line of the assertion, and the assertion is the
  standard \<open>assert\<close>, which expands to nothing when \<open>NDEBUG\<close> is defined.
\<close>

record build =
  DEBUG_CUNUMERIC :: bool
  NDEBUG :: bool

text \<open>
  \<open>broadcast_shapes\<close>; the first argument is the build. The assertion is checked only
  when \<open>DEBUG_CUNUMERIC\<close> is defined and \<open>NDEBUG\<close> is not.
\<close>

definition broadcast_shapes :: "build \<Rightarrow> NDArray list \<Rightarrow> error + nat list" where
  "broadcast_shapes b arrays =
     (if DEBUG_CUNUMERIC b \<and> \<not> NDEBUG b \<and> arrays = []
      then Inl (AssertionFailure ''!arrays.empty()'')
      else
        let dim = foldl max 0 (map dim arrays);
            result = replicate dim 1
        in broadcast_loop arrays result)"


subsection \<open>What the walk computes, and when it throws\<close>

text \<open>
  Two shapes, both back to front, conflict when at some position that both have they
  carry different extents, neither of which is 1.
\<close>

fun conflict_rev :: "nat list \<Rightarrow> nat list \<Rightarrow> bool" where
  "conflict_rev (x # xs) (y # ys) = ((x \<noteq> 1 \<and> y \<noteq> 1 \<and> x \<noteq> y) \<or> conflict_rev xs ys)"
| "conflict_rev [] ys = False"
| "conflict_rev (x # xs) [] = False"

definition conflict :: "nat list \<Rightarrow> nat list \<Rightarrow> bool" where
  "conflict s t = conflict_rev (rev s) (rev t)"

text \<open>A list of shapes is broadcast-compatible when no two of them conflict.\<close>

definition compatible :: "nat list list \<Rightarrow> bool" where
  "compatible shapes = (\<forall>s\<in>set shapes. \<forall>t\<in>set shapes. \<not> conflict s t)"

text \<open>The result of a walk that does not throw, back to front.\<close>

fun adopt_rev :: "nat list \<Rightarrow> nat list \<Rightarrow> nat list" where
  "adopt_rev (i # ins) (out # outs) = (if out = 1 then i else out) # adopt_rev ins outs"
| "adopt_rev [] outs = outs"
| "adopt_rev (i # ins) [] = []"

text \<open>
  The algorithm in the words of section 4.1 of the specification, on shapes as they are
  written (front to back). One input \<open>s\<close> is aligned to the trailing dimensions of the
  result \<open>r\<close>: position \<open>j\<close> of the result, \<open>length r - j\<close> places from the end, faces
  position \<open>length s - (length r - j)\<close> of the input when the input is long enough, and
  adopts its extent when the result holds 1 there. The resolution starts from as many
  ones as the maximum rank among the inputs and takes the inputs in turn.
\<close>

definition spec_adopt :: "nat list \<Rightarrow> nat list \<Rightarrow> nat list" where
  "spec_adopt r s =
     map (\<lambda>j. if r ! j = 1 \<and> length r - j \<le> length s
               then s ! (length s - (length r - j)) else r ! j) [0..<length r]"

definition spec_resolve :: "nat list list \<Rightarrow> nat list" where
  "spec_resolve shapes =
     foldl spec_adopt (replicate (Max (set (map length shapes))) 1) shapes"


section \<open>The array operations (operators.cc)\<close>

text \<open>
  \<open>legate::Scalar\<close>: a value together with its element type. The type of values is left
  open; the source builds only the zero of an element type itself.
\<close>

datatype 'v Scalar = Scalar (scalar_type: type_code) (scalar_value: 'v)

text \<open>
  The operation codes are passed through to the array methods unchanged; these are the
  members that the source names.
\<close>

datatype BinaryOpCode = ADD | MULTIPLY

datatype RandGenCode = UNIFORM

text \<open>
  The methods of \<open>NDArray\<close> that the operations call on the output array are declared
  outside the sources at hand: \<open>out.binary_op(op_code, rhs1, rhs2)\<close>,
  \<open>out.random(gen_code)\<close>, \<open>out.fill(value, argval)\<close>, \<open>out.trilu(rhs, k, lower)\<close> and
  \<open>out.dot(rhs1, rhs2)\<close>. A call is a value, with the output array first; what a method
  does is a parameter \<open>nd\<close> of every operation, which says whether the call completes
  (\<open>None\<close>) or fails. What an operation does to the runtime is its list of events:
  the arrays it creates and the method calls it makes, in order.
\<close>

datatype 'v call =
    BinaryOpCall NDArray BinaryOpCode NDArray NDArray
  | RandomCall NDArray RandGenCode
  | FillCall NDArray "'v Scalar" bool
  | TriluCall NDArray NDArray int bool
  | DotCall NDArray NDArray NDArray

datatype 'v event = Created NDArray | Called "'v call"

text \<open>The methods that always complete.\<close>

definition completes :: "'v call \<Rightarrow> error option" where
  "completes c = None"

text \<open>
  Modelled from the spec: \<open>CuNumericRuntime::create_array\<close> is defined outside the
  sources at hand; section 4.5 has the operations construct a new output handle of the
  resolved shape and type.
\<close>

definition create_array :: "nat list \<Rightarrow> type_code \<Rightarrow> NDArray" where
  "create_array sh t = \<lparr>shape = sh, type = t\<rparr>"

text \<open>
  The common end of the operations: the method is called on \<open>out\<close>, and \<open>out\<close> is
  returned when the call completes. \<open>evs\<close> are the events up to the call.
\<close>

definition call_and_return ::
  "('v call \<Rightarrow> error option) \<Rightarrow> 'v call \<Rightarrow> NDArray \<Rightarrow> 'v event list
   \<Rightarrow> (error + NDArray) \<times> 'v event list" where
  "call_and_return nd c out evs =
     ((case nd c of Some e \<Rightarrow> Inl e | None \<Rightarrow> Inr out), evs @ [Called c])"

definition binary_op ::
  "build \<Rightarrow> ('v call \<Rightarrow> error option) \<Rightarrow> BinaryOpCode \<Rightarrow> NDArray \<Rightarrow> NDArray
   \<Rightarrow> NDArray option \<Rightarrow> (error + NDArray) \<times> 'v event list" where
  "binary_op b nd op_code rhs1 rhs2 out =
     (case out of
        None \<Rightarrow>
          (case broadcast_shapes b [rhs1, rhs2] of
             Inl e \<Rightarrow> (Inl e, [])
           | Inr out_shape \<Rightarrow>
               let out' = create_array out_shape (type rhs1)
               in call_and_return nd (BinaryOpCall out' op_code rhs1 rhs2) out' [Created out'])
      | Some out' \<Rightarrow> call_and_return nd (BinaryOpCall out' op_code rhs1 rhs2) out' [])"

definition random ::
  "('v call \<Rightarrow> error option) \<Rightarrow> nat list \<Rightarrow> (error + NDArray) \<times> 'v event list" where
  "random nd sh =
     (let out = create_array sh FLOAT64
      in call_and_return nd (RandomCall out UNIFORM) out [Created out])"

text \<open>
  \<open>generate_zero_fn\<close> instantiated at a code: the scalar \<open>VAL(0)\<close> of the value type
  of that code. \<open>legate::type_dispatch\<close> calls the functor at the instance of the code
  it is given.
\<close>

definition generate_zero_fn :: "type_code \<Rightarrow> ('v::zero) Scalar" where
  "generate_zero_fn CODE = Scalar CODE 0"

definition type_dispatch :: "type_code \<Rightarrow> (type_code \<Rightarrow> 'a) \<Rightarrow> 'a" where
  "type_dispatch code f = f code"

definition full ::
  "('v call \<Rightarrow> error option) \<Rightarrow> nat list \<Rightarrow> 'v Scalar
   \<Rightarrow> (error + NDArray) \<times> 'v event list" where
  "full nd sh val =
     (let out = create_array sh (scalar_type val)
      in call_and_return nd (FillCall out val False) out [Created out])"

text \<open>\<open>zeros\<close>; the type argument is \<open>None\<close> for a null pointer.\<close>

definition zeros ::
  "(('v::zero) call \<Rightarrow> error option) \<Rightarrow> nat list \<Rightarrow> type_code option
   \<Rightarrow> (error + NDArray) \<times> 'v event list" where
  "zeros nd sh ty =
     (let ty' = (case ty of None \<Rightarrow> FLOAT64 | Some t \<Rightarrow> t)
      in if code_int ty' \<ge> code_int FIXED_ARRAY
         then (Inl (InvalidArgument ''Type must be a primitive type''), [])
         else let zero = type_dispatch ty' generate_zero_fn
              in full nd sh zero)"

definition trilu ::
  "('v call \<Rightarrow> error option) \<Rightarrow> NDArray \<Rightarrow> int \<Rightarrow> bool
   \<Rightarrow> (error + NDArray) \<times> 'v event list" where
  "trilu nd rhs k lower =
     (let d = dim rhs;
          sh = shape rhs;
          out_shape = sh
      in if d = 0 then (Inl (InvalidArgument ''Dim of input array must be > 0''), [])
         else let out_shape = (if d = 1 then out_shape @ [sh ! 0] else out_shape);
                  out = create_array out_shape (type rhs)
              in call_and_return nd (TriluCall out rhs k lower) out [Created out])"

definition tril ::
  "('v call \<Rightarrow> error option) \<Rightarrow> NDArray \<Rightarrow> int \<Rightarrow> (error + NDArray) \<times> 'v event list" where
  "tril nd rhs k = trilu nd rhs k True"

definition triu ::
  "('v call \<Rightarrow> error option) \<Rightarrow> NDArray \<Rightarrow> int \<Rightarrow> (error + NDArray) \<times> 'v event list" where
  "triu nd rhs k = trilu nd rhs k False"

text \<open>
  \<open>dot\<close>. Each of its two checks writes a diagnostic to standard error and runs
  \<open>LEGATE_ABORT\<close>.
\<close>

definition dot ::
  "('v call \<Rightarrow> error option) \<Rightarrow> NDArray \<Rightarrow> NDArray \<Rightarrow> (error + NDArray) \<times> 'v event list" where
  "dot nd rhs1 rhs2 =
     (if dim rhs1 \<noteq> 2 \<or> dim rhs2 \<noteq> 2
      then (Inl (LegateAbort ''cunumeric::dot only supports matrices now'' []), [])
      else
        let rhs1_shape = shape rhs1;
            rhs2_shape = shape rhs2
        in if rhs1_shape ! 1 \<noteq> rhs2_shape ! 0
           then (Inl (LegateAbort (''Incompatible matrices: (%zd, %zd) x (%zd, %zd)'' @ [CHR 0x0A])
                        [rhs1_shape ! 0, rhs1_shape ! 1, rhs2_shape ! 0, rhs2_shape ! 1]), [])
           else
             let sh = [rhs1_shape ! 0, rhs2_shape ! 1];
                 out = create_array sh (type rhs1)
             in call_and_return nd (DotCall out rhs1 rhs2) out [Created out])"

text \<open>
  One element type is narrower than another when its elements take fewer bytes.
\<close>

definition narrower :: "type_code \<Rightarrow> type_code \<Rightarrow> bool" where
  "narrower t u =
     (case (byte_size t, byte_size u) of (Some a, Some b) \<Rightarrow> a < b | _ \<Rightarrow> False)"


section \<open>Cholesky factorization on the CPU (matrix/potrf.cc)\<close>

type_synonym int32_t = "32 word"

text \<open>
  The LAPACK routines \<open>spotrf\<close>, \<open>dpotrf\<close>, \<open>cpotrf\<close> and \<open>zpotrf\<close> belong to the
  external numeric library and are parameters: from \<open>uplo\<close>, the order \<open>n\<close>, the
  buffer and the leading dimension, a routine gives the buffer as it leaves it and the
  status it stores in \<open>info\<close>. The element type of the buffer is left open.
\<close>

type_synonym 'a potrf_routine = "char \<Rightarrow> int32_t \<Rightarrow> 'a list \<Rightarrow> int32_t \<Rightarrow> 'a list \<times> int32_t"

text \<open>
  The four specializations of \<open>PotrfImplBody<VariantKind::CPU, CODE>::operator()\<close>.
  The routine works in place, so a body gives the buffer after the call together with
  the exception it throws, if any.
\<close>

definition PotrfImplBody_CPU_FLOAT32 ::
  "'a potrf_routine \<Rightarrow> 'a list \<Rightarrow> int32_t \<Rightarrow> int32_t \<Rightarrow> 'a list \<times> error option" where
  "PotrfImplBody_CPU_FLOAT32 LAPACK_spotrf array m n =
     (let uplo = CHR ''L'';
          (array', info) = LAPACK_spotrf uplo n array m
      in if info \<noteq> 0
         then (array', Some (TaskException ''Matrix is not positive definite''))
         else (array', None))"

definition PotrfImplBody_CPU_FLOAT64 ::
  "'a potrf_routine \<Rightarrow> 'a list \<Rightarrow> int32_t \<Rightarrow> int32_t \<Rightarrow> 'a list \<times> error option" where
  "PotrfImplBody_CPU_FLOAT64 LAPACK_dpotrf array m n =
     (let uplo = CHR ''L'';
          (array', info) = LAPACK_dpotrf uplo n array m
      in if info \<noteq> 0
         then (array', Some (TaskException ''Matrix is not positive definite''))
         else (array', None))"

definition PotrfImplBody_CPU_COMPLEX64 ::
  "'a potrf_routine \<Rightarrow> 'a list \<Rightarrow> int32_t \<Rightarrow> int32_t \<Rightarrow> 'a list \<times> error option" where
  "PotrfImplBody_CPU_COMPLEX64 LAPACK_cpotrf array m n =
     (let uplo = CHR ''L'';
          (array', info) = LAPACK_cpotrf uplo n array m
      in if info \<noteq> 0
         then (array', Some (TaskException ''Matrix is not positive definite''))
         else (array', None))"

definition PotrfImplBody_CPU_COMPLEX128 ::
  "'a potrf_routine \<Rightarrow> 'a list \<Rightarrow> int32_t \<Rightarrow> int32_t \<Rightarrow> 'a list \<times> error option" where
  "PotrfImplBody_CPU_COMPLEX128 LAPACK_zpotrf array m n =
     (let uplo = CHR ''L'';
          (array', info) = LAPACK_zpotrf uplo n array m
      in if info \<noteq> 0
         then (array', Some (TaskException ''Matrix is not positive definite''))
         else (array', None))"

text \<open>
  The state of the external library that the task variant touches: the number of
  threads it runs its routines with, set by \<open>openblas_set_num_threads\<close>.
\<close>

record openblas =
  num_threads :: int

definition openblas_set_num_threads :: "int \<Rightarrow> openblas \<Rightarrow> openblas" where
  "openblas_set_num_threads n st = st\<lparr>num_threads := n\<rparr>"

text \<open>
  \<open>PotrfTask::cpu_variant\<close>. The first argument says whether \<open>LEGATE_USE_OPENMP\<close> is
  defined in the build. \<open>potrf_template<VariantKind::CPU>\<close> is defined outside the
  sources at hand and is a parameter, run on the task context in the state of the
  library that the variant leaves.
\<close>

definition PotrfTask_cpu_variant ::
  "bool \<Rightarrow> ('ctx \<Rightarrow> openblas \<Rightarrow> 'r) \<Rightarrow> 'ctx \<Rightarrow> openblas \<Rightarrow> 'r" where
  "PotrfTask_cpu_variant LEGATE_USE_OPENMP potrf_template context st =
     (let st' = (if LEGATE_USE_OPENMP then openblas_set_num_threads 1 st else st)
      in potrf_template context st')"

section \<open>Matrix-vector product with OpenMP (matrix/matvecmul_omp.cc)\<close>

type_synonym size_t = "64 word"

datatype CBLAS_ORDER = CblasRowMajor | CblasColMajor

datatype CBLAS_TRANSPOSE = CblasNoTrans | CblasTrans | CblasConjTrans

text \<open>
  \<open>cblas_sgemv(order, trans, m, n, alpha, a, lda, x, incx, beta, y, incy)\<close> belongs to
  the external numeric library and is a parameter; it gives \<open>y\<close> as the routine leaves
  it. A \<open>size_t\<close> argument is handed over by its value, the conversion to the integer
  type of the library being part of the parameter.
\<close>

type_synonym 'f gemv =
  "CBLAS_ORDER \<Rightarrow> CBLAS_TRANSPOSE \<Rightarrow> int \<Rightarrow> int \<Rightarrow> 'f \<Rightarrow> 'f list \<Rightarrow> int \<Rightarrow> 'f list \<Rightarrow> int
   \<Rightarrow> 'f \<Rightarrow> 'f list \<Rightarrow> int \<Rightarrow> 'f list"

text \<open>
  The helpers of \<open>matrix/util.h\<close> are defined outside the sources at hand and are
  parameters. A buffer is the list of the elements behind a pointer; a helper that
  writes through its first argument gives that buffer as it leaves it.
\<close>

record ('h, 'f) util =
  allocate_buffer :: "size_t \<Rightarrow> 'f list"
  half_vector_to_float :: "'f list \<Rightarrow> 'h list \<Rightarrow> size_t \<Rightarrow> 'f list"
  half_matrix_to_float :: "'f list \<Rightarrow> 'h list \<Rightarrow> size_t \<Rightarrow> size_t \<Rightarrow> size_t \<Rightarrow> 'f list"
  float_vector_to_half :: "'h list \<Rightarrow> 'f list \<Rightarrow> size_t \<Rightarrow> 'h list"

text \<open>\<open>MatVecMulImplBody<VariantKind::OMP, LegateTypeCode::FLOAT_LT>\<close>; the result is \<open>lhs\<close>.\<close>

definition MatVecMulImplBody_OMP_FLOAT ::
  "('f::{zero,one}) gemv \<Rightarrow> size_t \<Rightarrow> size_t \<Rightarrow> 'f list \<Rightarrow> 'f list \<Rightarrow> 'f list \<Rightarrow> size_t
   \<Rightarrow> bool \<Rightarrow> 'f list" where
  "MatVecMulImplBody_OMP_FLOAT cblas_sgemv m n lhs rhs1 rhs2 rhs_stride vec_on_lhs =
     (if vec_on_lhs
      then cblas_sgemv CblasRowMajor CblasTrans (uint m) (uint n) 1 rhs2 (uint rhs_stride)
             rhs1 1 0 lhs 1
      else cblas_sgemv CblasRowMajor CblasNoTrans (uint m) (uint n) 1 rhs1 (uint rhs_stride)
             rhs2 1 0 lhs 1)"

text \<open>
  \<open>MatVecMulImplBody<VariantKind::OMP, LegateTypeCode::HALF_LT>\<close>, the overload with a
  half-precision \<open>lhs\<close>; the result is \<open>lhs\<close>.
\<close>

definition MatVecMulImplBody_OMP_HALF ::
  "('h, 'f::{zero,one}) util \<Rightarrow> 'f gemv \<Rightarrow> size_t \<Rightarrow> size_t \<Rightarrow> 'h list \<Rightarrow> 'h list \<Rightarrow> 'h list
   \<Rightarrow> size_t \<Rightarrow> bool \<Rightarrow> 'h list" where
  "MatVecMulImplBody_OMP_HALF u cblas_sgemv m n lhs rhs1 rhs2 rhs_stride vec_on_lhs =
     (if vec_on_lhs then
        let lhs_copy = allocate_buffer u n;
            rhs1_copy = allocate_buffer u m;
            rhs2_copy = allocate_buffer u (m * n);
            rhs1_copy = half_vector_to_float u rhs1_copy rhs1 m;
            rhs2_copy = half_matrix_to_float u rhs2_copy rhs2 m n rhs_stride;
            lhs_copy = cblas_sgemv CblasRowMajor CblasTrans (uint m) (uint n) 1 rhs2_copy (uint n)
                         rhs1_copy 1 0 lhs_copy 1
        in float_vector_to_half u lhs lhs_copy n
      else
        let lhs_copy = allocate_buffer u m;
            rhs1_copy = allocate_buffer u (m * n);
            rhs2_copy = allocate_buffer u n;
            rhs1_copy = half_matrix_to_float u rhs1_copy rhs1 m n rhs_stride;
            rhs2_copy = half_vector_to_float u rhs2_copy rhs2 n;
            lhs_copy = cblas_sgemv CblasRowMajor CblasNoTrans (uint m) (uint n) 1 rhs1_copy (uint n)
                         rhs2_copy 1 0 lhs_copy 1
        in float_vector_to_half u lhs lhs_copy m)"

text \<open>The overload with a single-precision \<open>lhs\<close>.\<close>

definition MatVecMulImplBody_OMP_HALF_float_lhs ::
  "('h, 'f::{zero,one}) util \<Rightarrow> 'f gemv \<Rightarrow> size_t \<Rightarrow> size_t \<Rightarrow> 'f list \<Rightarrow> 'h list \<Rightarrow> 'h list
   \<Rightarrow> size_t \<Rightarrow> bool \<Rightarrow> 'f list" where
  "MatVecMulImplBody_OMP_HALF_float_lhs u cblas_sgemv m n lhs rhs1 rhs2 rhs_stride vec_on_lhs =
     (if vec_on_lhs then
        let rhs1_copy = allocate_buffer u m;
            rhs2_copy = allocate_buffer u (m * n);
            rhs1_copy = half_vector_to_float u rhs1_copy rhs1 m;
            rhs2_copy = half_matrix_to_float u rhs2_copy rhs2 m n rhs_stride
        in cblas_sgemv CblasRowMajor CblasTrans (uint m) (uint n) 1 rhs2_copy (uint n)
             rhs1_copy 1 0 lhs 1
      else
        let rhs1_copy = allocate_buffer u (m * n);
            rhs2_copy = allocate_buffer u n;
            rhs1_copy = half_matrix_to_float u rhs1_copy rhs1 m n rhs_stride;
            rhs2_copy = half_vector_to_float u rhs2_copy rhs2 n
        in cblas_sgemv CblasRowMajor CblasNoTrans (uint m) (uint n) 1 rhs1_copy (uint n)
             rhs2_copy 1 0 lhs 1)"

text \<open>
  The policy of section 4.3 of the specification in its own words: the operands are
  promoted to single precision (the vector as it is, the \<open>m\<close> by \<open>n\<close> matrix out of
  its rows \<open>rhs_stride\<close> apart into a dense buffer, whose rows are \<open>n\<close> apart), the
  single-precision kernel runs on the promoted buffers and a fresh output buffer, and
  the result is narrowed back into \<open>lhs\<close>. With \<open>vec_on_lhs\<close> the vector is \<open>rhs1\<close>,
  of length \<open>m\<close>, and the output has length \<open>n\<close>; otherwise the vector is \<open>rhs2\<close>, of
  length \<open>n\<close>, and the output has length \<open>m\<close>.
\<close>

definition promote_vector :: "('h, 'f) util \<Rightarrow> 'h list \<Rightarrow> size_t \<Rightarrow> 'f list" where
  "promote_vector u v len = half_vector_to_float u (allocate_buffer u len) v len"

definition promote_matrix ::
  "('h, 'f) util \<Rightarrow> 'h list \<Rightarrow> size_t \<Rightarrow> size_t \<Rightarrow> size_t \<Rightarrow> 'f list" where
  "promote_matrix u a m n stride = half_matrix_to_float u (allocate_buffer u (m * n)) a m n stride"

definition spec_promoted_gemv ::
  "('h, 'f::{zero,one}) util \<Rightarrow> 'f gemv \<Rightarrow> size_t \<Rightarrow> size_t \<Rightarrow> 'h list \<Rightarrow> 'h list \<Rightarrow> 'h list
   \<Rightarrow> size_t \<Rightarrow> bool \<Rightarrow> 'h list" where
  "spec_promoted_gemv u cblas_sgemv m n lhs rhs1 rhs2 rhs_stride vec_on_lhs =
     (let out_len = (if vec_on_lhs then n else m);
          wide1 = (if vec_on_lhs then promote_vector u rhs1 m
                   else promote_matrix u rhs1 m n rhs_stride);
          wide2 = (if vec_on_lhs then promote_matrix u rhs2 m n rhs_stride
                   else promote_vector u rhs2 n);
          wide_out = MatVecMulImplBody_OMP_FLOAT cblas_sgemv m n (allocate_buffer u out_len)
                       wide1 wide2 n vec_on_lhs
      in float_vector_to_half u lhs wide_out out_len)"

section \<open>Properties of broadcast shape resolution\<close>

text \<open>
  A walk throws exactly when the input conflicts with the result so far, and otherwise
  adopts the extents of the input where the result holds 1.
\<close>

lemma walk_eq: "walk ins outs = (if conflict_rev ins outs then Inl StdException else Inr (adopt_rev ins outs))"
  by (induction ins outs rule: walk.induct) auto

lemma length_adopt_rev: "length (adopt_rev ins outs) = length outs"
  by (induction ins outs rule: adopt_rev.induct) auto

lemma nth_adopt_rev: "p < length outs \<Longrightarrow> adopt_rev ins outs ! p = (if p < length ins \<and> outs ! p = 1 then ins ! p else outs ! p)"
proof (induction ins outs arbitrary: p rule: adopt_rev.induct)
  case (1 i ins out outs)
  then show ?case by (cases p) auto
qed auto

text \<open>
  One step of the walk is one step of the algorithm as section 4.1 words it.
\<close>

lemma rev_adopt_rev: "rev (adopt_rev (rev s) (rev r)) = spec_adopt r s"
  apply (rule nth_equalityI)
   apply (simp add: length_adopt_rev spec_adopt_def)
  apply (auto simp: length_adopt_rev spec_adopt_def rev_nth nth_adopt_rev)
  done

lemma length_spec_adopt: "length (spec_adopt r s) = length r"
  by (simp add: spec_adopt_def)

lemma length_foldl_spec_adopt: "length (foldl spec_adopt r ss) = length r"
  by (induction ss arbitrary: r) (simp_all add: length_spec_adopt)

text \<open>
  An input that conflicts with a result conflicts with an input adopted into it, or
  conflicted with the result before; a result of ones conflicts with nothing.
\<close>

lemma conflict_adopt_rev: "conflict_rev s (adopt_rev t r) \<Longrightarrow> conflict_rev s t \<or> conflict_rev s r"
proof (induction t r arbitrary: s rule: adopt_rev.induct)
  case (1 i ins out outs)
  then show ?case by (cases s) (auto split: if_splits)
next
  case (2 outs)
  then show ?case by simp
next
  case (3 i ins)
  then show ?case by (cases s) auto
qed

lemma conflict_rev_ones: "\<not> conflict_rev s (replicate n (Suc 0))"
proof (induction s arbitrary: n)
  case Nil
  show ?case by simp
next
  case (Cons x xs)
  then show ?case by (cases n) auto
qed

lemma conflict_rev_sym: "conflict_rev s t = conflict_rev t s"
  by (induction s t rule: conflict_rev.induct) (auto, (case_tac ys; simp)+)

lemma conflict_rev_pad: "conflict_rev s (t @ replicate k (Suc 0)) = conflict_rev s t"
proof (induction s t rule: conflict_rev.induct)
  case (3 x xs)
  show ?case using conflict_rev_ones [of "x # xs" k] by simp
qed (auto simp: conflict_rev_ones)

lemma adopt_rev_ones: "length t \<le> n \<Longrightarrow> adopt_rev t (replicate n (Suc 0)) = t @ replicate (n - length t) (Suc 0)"
proof (induction t arbitrary: n)
  case Nil
  show ?case by simp
next
  case (Cons x xs)
  then show ?case by (cases n) auto
qed

lemma broadcast_loop_compatible:
  assumes "\<forall>a\<in>set arrays. \<not> conflict_rev (rev (shape a)) (rev result)"
    and "\<forall>a\<in>set arrays. \<forall>b\<in>set arrays. \<not> conflict (shape a) (shape b)"
  shows "broadcast_loop arrays result = Inr (foldl spec_adopt result (map shape arrays))"
  using assms
proof (induction arrays arbitrary: result)
  case Nil
  show ?case by simp
next
  case (Cons a arrays)
  let ?r = "adopt_rev (rev (shape a)) (rev result)"
  have w: "walk (rev (shape a)) (rev result) = Inr ?r"
    using Cons.prems(1) by (simp add: walk_eq)
  have r: "rev ?r = spec_adopt result (shape a)"
    by (rule rev_adopt_rev)
  have "\<forall>b\<in>set arrays. \<not> conflict_rev (rev (shape b)) (rev (rev ?r))"
  proof
    fix b assume b: "b \<in> set arrays"
    have "\<not> conflict_rev (rev (shape b)) (rev (shape a))"
      using Cons.prems(2) b by (simp add: conflict_def)
    moreover have "\<not> conflict_rev (rev (shape b)) (rev result)"
      using Cons.prems(1) b by simp
    ultimately show "\<not> conflict_rev (rev (shape b)) (rev (rev ?r))"
      using conflict_adopt_rev [of "rev (shape b)" "rev (shape a)" "rev result"] by auto
  qed
  moreover have "\<forall>b\<in>set arrays. \<forall>c\<in>set arrays. \<not> conflict (shape b) (shape c)"
    using Cons.prems(2) by simp
  ultimately have "broadcast_loop arrays (rev ?r) = Inr (foldl spec_adopt (rev ?r) (map shape arrays))"
    by (rule Cons.IH)
  with w r show ?case by simp
qed

lemma foldl_max_Max: "xs \<noteq> [] \<Longrightarrow> foldl max (0::nat) xs = Max (set xs)"
proof (cases xs)
  case Nil
  moreover assume "xs \<noteq> []"
  ultimately show ?thesis by simp
next
  case (Cons y ys)
  have "foldl max 0 (y # ys) = fold max ys y"
    by (simp add: foldl_conv_fold max.commute)
  also have "\<dots> = Max (set (y # ys))"
    by (simp only: Max.set_eq_fold)
  finally show ?thesis using Cons by simp
qed

lemma broadcast_shapes_resolve:
  assumes "arrays \<noteq> []" and "compatible (map shape arrays)"
  shows "broadcast_shapes dbg arrays = Inr (spec_resolve (map shape arrays))"
proof -
  let ?d = "foldl max 0 (map dim arrays)"
  have d: "?d = Max (set (map length (map shape arrays)))"
    using assms(1) foldl_max_Max [of "map dim arrays"] by (simp add: dim_def [abs_def] comp_def)
  have "\<forall>a\<in>set arrays. \<not> conflict_rev (rev (shape a)) (rev (replicate ?d 1))"
    by (simp add: conflict_rev_ones)
  moreover have "\<forall>a\<in>set arrays. \<forall>b\<in>set arrays. \<not> conflict (shape a) (shape b)"
    using assms(2) by (simp add: compatible_def)
  ultimately have "broadcast_loop arrays (replicate ?d 1) =
      Inr (foldl spec_adopt (replicate ?d 1) (map shape arrays))"
    by (rule broadcast_loop_compatible)
  then show ?thesis
    using assms(1) by (simp add: broadcast_shapes_def spec_resolve_def d)
qed

lemma length_spec_resolve:
  "arrays \<noteq> [] \<Longrightarrow> length (spec_resolve (map shape arrays)) = Max (set (map dim arrays))"
  by (simp add: spec_resolve_def length_foldl_spec_adopt dim_def [abs_def] comp_def)

text \<open>
  Claim C1. For every non-empty list of broadcast-compatible arrays, \<open>broadcast_shapes\<close>
  returns a shape: the one that the algorithm of section 4.1 computes (all dimensions
  start at 1; each input in turn, aligned to the trailing dimensions of the result, gives
  its extent to the positions where the result holds 1), and its rank is the maximum rank
  among the inputs. In particular (2,3) with (3,) resolves to (2,3), and (2,3) with (2,1)
  resolves to (2,3), whatever the element types and the build.
\<close>

theorem broadcast_shapes_compatible:
  assumes "arrays \<noteq> []" and "compatible (map shape arrays)"
  shows "broadcast_shapes dbg arrays = Inr (spec_resolve (map shape arrays))
       \<and> length (spec_resolve (map shape arrays)) = Max (set (map dim arrays))
       \<and> broadcast_shapes dbg [\<lparr>shape = [2, 3], type = t1\<rparr>, \<lparr>shape = [3], type = t2\<rparr>] = Inr [2, 3]
       \<and> broadcast_shapes dbg [\<lparr>shape = [2, 3], type = t1\<rparr>, \<lparr>shape = [2, 1], type = t2\<rparr>] = Inr [2, 3]"
proof -
  have "broadcast_shapes dbg [\<lparr>shape = [2, 3], type = t1\<rparr>, \<lparr>shape = [3], type = t2\<rparr>] = Inr [2, 3]"
    by (simp add: broadcast_shapes_def dim_def)
  moreover have "broadcast_shapes dbg [\<lparr>shape = [2, 3], type = t1\<rparr>, \<lparr>shape = [2, 1], type = t2\<rparr>] = Inr [2, 3]"
    by (simp add: broadcast_shapes_def dim_def)
  ultimately show ?thesis
    using assms by (simp add: broadcast_shapes_resolve length_spec_resolve)
qed

theorem broadcast_shapes_compatible_witness:
  "[\<lparr>shape = [0, 3], type = FLOAT64\<rparr>, \<lparr>shape = [1, 3], type = INT8\<rparr>, \<lparr>shape = [7, 5, 1, 1], type = BOOL\<rparr>] \<noteq> []
   \<and> compatible (map shape [\<lparr>shape = [0, 3], type = FLOAT64\<rparr>, \<lparr>shape = [1, 3], type = INT8\<rparr>, \<lparr>shape = [7, 5, 1, 1], type = BOOL\<rparr>])
   \<and> broadcast_shapes \<lparr>DEBUG_CUNUMERIC = False, NDEBUG = False\<rparr>
       [\<lparr>shape = [0, 3], type = FLOAT64\<rparr>, \<lparr>shape = [1, 3], type = INT8\<rparr>, \<lparr>shape = [7, 5, 1, 1], type = BOOL\<rparr>] = Inr [7, 5, 0, 3]
   \<and> length [7, 5, 0, 3 :: nat] = Max (set (map dim [\<lparr>shape = [0, 3], type = FLOAT64\<rparr>, \<lparr>shape = [1, 3], type = INT8\<rparr>, \<lparr>shape = [7, 5, 1, 1], type = BOOL\<rparr>]))"
proof -
  let ?as = "[\<lparr>shape = [0, 3], type = FLOAT64\<rparr>, \<lparr>shape = [1, 3], type = INT8\<rparr>, \<lparr>shape = [7, 5, 1, 1], type = BOOL\<rparr>]"
  have ne: "?as \<noteq> []" by simp
  have c: "compatible (map shape ?as)"
    by (simp add: compatible_def conflict_def)
  have r: "spec_resolve (map shape ?as) = [7, 5, 0, 3]"
    by (simp add: spec_resolve_def spec_adopt_def upt_conv_Cons)
  show ?thesis
    using broadcast_shapes_compatible [OF ne c, of "\<lparr>DEBUG_CUNUMERIC = False, NDEBUG = False\<rparr>"] ne c r by simp
qed

text \<open>
  Claim C2, as the code has it. For every pair of arrays whose shapes carry two different
  extents, both different from 1, at the same trailing-aligned position,
  \<open>broadcast_shapes\<close> fails: it throws \<open>std::exception()\<close>, an exception object that
  carries no message and so names neither shape.
\<close>

theorem broadcast_shapes_conflict:
  assumes "conflict (shape a) (shape b)"
  shows "broadcast_shapes dbg [a, b] = Inl StdException \<and> message StdException = None"
proof -
  let ?d = "max (length (shape a)) (length (shape b))"
  let ?pad = "replicate (?d - length (shape a)) (Suc 0)"
  have 1: "walk (rev (shape a)) (replicate ?d (Suc 0)) = Inr (rev (shape a) @ ?pad)"
    by (simp add: walk_eq conflict_rev_ones adopt_rev_ones)
  have "conflict_rev (rev (shape b)) (rev (shape a) @ ?pad)"
    using assms by (simp add: conflict_rev_pad conflict_def conflict_rev_sym [of "rev (shape b)"])
  then have 2: "walk (rev (shape b)) (rev (shape a) @ ?pad) = Inl StdException"
    by (simp add: walk_eq)
  show ?thesis
    using 1 2 by (simp add: broadcast_shapes_def dim_def)
qed

theorem broadcast_shapes_conflict_witness:
  "conflict (shape \<lparr>shape = [2, 3], type = FLOAT64\<rparr>) (shape \<lparr>shape = [4, 3], type = FLOAT64\<rparr>)
   \<and> broadcast_shapes \<lparr>DEBUG_CUNUMERIC = True, NDEBUG = False\<rparr>
       [\<lparr>shape = [2, 3], type = FLOAT64\<rparr>, \<lparr>shape = [4, 3], type = FLOAT64\<rparr>] = Inl StdException"
proof -
  have c: "conflict (shape \<lparr>shape = [2, 3], type = FLOAT64\<rparr>) (shape \<lparr>shape = [4, 3], type = FLOAT64\<rparr>)"
    by (simp add: conflict_def)
  show ?thesis
    using broadcast_shapes_conflict [OF c, of "\<lparr>DEBUG_CUNUMERIC = True, NDEBUG = False\<rparr>"] c by simp
qed

text \<open>
  The shapes (2,3) and (4,3): the failure is the bare exception, without a message that
  could name a shape.
\<close>

theorem broadcast_shapes_conflict_counterexample:
  "broadcast_shapes \<lparr>DEBUG_CUNUMERIC = False, NDEBUG = False\<rparr>
       [\<lparr>shape = [2, 3], type = FLOAT64\<rparr>, \<lparr>shape = [4, 3], type = FLOAT64\<rparr>] = Inl StdException
   \<and> message StdException = None"
  by (simp add: broadcast_shapes_def dim_def)

text \<open>
  Claim C9, as the code has it. On an empty list \<open>broadcast_shapes\<close> fails fast only in a
  build that defines \<open>DEBUG_CUNUMERIC\<close> and does not define \<open>NDEBUG\<close>, where the
  assertion ends the process (no exception is thrown and no shape is returned); in every
  other build it returns the empty shape, of rank 0.
\<close>

theorem broadcast_shapes_empty:
  "broadcast_shapes b [] =
     (if DEBUG_CUNUMERIC b \<and> \<not> NDEBUG b then Inl (AssertionFailure ''!arrays.empty()'')
      else Inr [])
   \<and> \<not> is_exception (AssertionFailure ''!arrays.empty()'')
   \<and> broadcast_shapes \<lparr>DEBUG_CUNUMERIC = True, NDEBUG = False\<rparr> []
       = Inl (AssertionFailure ''!arrays.empty()'')
   \<and> broadcast_shapes \<lparr>DEBUG_CUNUMERIC = True, NDEBUG = True\<rparr> [] = Inr []
   \<and> broadcast_shapes \<lparr>DEBUG_CUNUMERIC = False, NDEBUG = False\<rparr> [] = Inr []
   \<and> broadcast_shapes \<lparr>DEBUG_CUNUMERIC = False, NDEBUG = True\<rparr> [] = Inr []"
  by (simp add: broadcast_shapes_def)

text \<open>
  A build without \<open>DEBUG_CUNUMERIC\<close>, and one with it and with \<open>NDEBUG\<close>: the empty list
  resolves to the empty shape, and nothing fails.
\<close>

theorem broadcast_shapes_empty_counterexample:
  "broadcast_shapes \<lparr>DEBUG_CUNUMERIC = False, NDEBUG = False\<rparr> [] = Inr []
   \<and> broadcast_shapes \<lparr>DEBUG_CUNUMERIC = True, NDEBUG = True\<rparr> [] = Inr []"
  by (simp add: broadcast_shapes_def)

section \<open>Properties of the array operations\<close>

lemma call_and_return_Inr:
  "call_and_return nd c out evs = (Inr a, evs') \<Longrightarrow> a = out \<and> evs' = evs @ [Called c]"
  by (auto simp: call_and_return_def split: option.splits)

lemma not_narrower_self: "\<not> narrower t t"
  by (simp add: narrower_def split: option.splits)

lemma binary_op_example:
  "binary_op \<lparr>DEBUG_CUNUMERIC = False, NDEBUG = False\<rparr> (completes :: int call \<Rightarrow> error option) ADD
      \<lparr>shape = [2], type = FLOAT32\<rparr> \<lparr>shape = [2], type = FLOAT64\<rparr> None
    = (Inr \<lparr>shape = [2], type = FLOAT32\<rparr>,
       [Created \<lparr>shape = [2], type = FLOAT32\<rparr>,
        Called (BinaryOpCall \<lparr>shape = [2], type = FLOAT32\<rparr> ADD
                  \<lparr>shape = [2], type = FLOAT32\<rparr> \<lparr>shape = [2], type = FLOAT64\<rparr>)])"
  by (simp add: binary_op_def broadcast_shapes_def dim_def create_array_def
      call_and_return_def completes_def Let_def)

text \<open>
  Claim C4, as the code has it. A binary operation invoked without an output handle
  creates its output array with the element type of the first operand: the type is never
  narrower than that of the first operand, and nothing relates it to the type of the
  second. With an output handle the operation creates no array and returns the handle it
  was given, so a wider result is obtained by supplying one.
\<close>

theorem binary_op_output_type:
  "(binary_op dbg nd op_code rhs1 rhs2 None = (Inr out, evs) \<longrightarrow>
      type out = type rhs1 \<and> \<not> narrower (type out) (type rhs1)
      \<and> evs = [Created out, Called (BinaryOpCall out op_code rhs1 rhs2)])
   \<and> (binary_op dbg nd op_code rhs1 rhs2 (Some given) = (Inr out, evs) \<longrightarrow>
      out = given \<and> evs = [Called (BinaryOpCall given op_code rhs1 rhs2)])"
proof (intro conjI impI)
  assume a: "binary_op dbg nd op_code rhs1 rhs2 None = (Inr out, evs)"
  then obtain out_shape where s: "broadcast_shapes dbg [rhs1, rhs2] = Inr out_shape"
    by (cases "broadcast_shapes dbg [rhs1, rhs2]") (auto simp: binary_op_def)
  let ?o = "create_array out_shape (type rhs1)"
  have "call_and_return nd (BinaryOpCall ?o op_code rhs1 rhs2) ?o [Created ?o] = (Inr out, evs)"
    using a s by (simp add: binary_op_def Let_def)
  then have o: "out = ?o" and e: "evs = [Created ?o] @ [Called (BinaryOpCall ?o op_code rhs1 rhs2)]"
    using call_and_return_Inr by blast+
  show "type out = type rhs1" using o by (simp add: create_array_def)
  show "\<not> narrower (type out) (type rhs1)" using o by (simp add: create_array_def not_narrower_self)
  show "evs = [Created out, Called (BinaryOpCall out op_code rhs1 rhs2)]" using o e by simp
next
  assume a: "binary_op dbg nd op_code rhs1 rhs2 (Some given) = (Inr out, evs)"
  then have "call_and_return nd (BinaryOpCall given op_code rhs1 rhs2) given [] = (Inr out, evs)"
    by (simp add: binary_op_def)
  then have "out = given \<and> evs = [] @ [Called (BinaryOpCall given op_code rhs1 rhs2)]"
    by (rule call_and_return_Inr)
  then show "out = given" and "evs = [Called (BinaryOpCall given op_code rhs1 rhs2)]" by simp_all
qed

theorem binary_op_output_type_witness:
  "binary_op \<lparr>DEBUG_CUNUMERIC = False, NDEBUG = False\<rparr> (completes :: int call \<Rightarrow> error option) ADD
      \<lparr>shape = [2], type = FLOAT32\<rparr> \<lparr>shape = [2], type = FLOAT64\<rparr> None
    = (Inr \<lparr>shape = [2], type = FLOAT32\<rparr>,
       [Created \<lparr>shape = [2], type = FLOAT32\<rparr>,
        Called (BinaryOpCall \<lparr>shape = [2], type = FLOAT32\<rparr> ADD
                  \<lparr>shape = [2], type = FLOAT32\<rparr> \<lparr>shape = [2], type = FLOAT64\<rparr>)])
   \<and> type \<lparr>shape = [2], type = FLOAT32\<rparr> = type \<lparr>shape = [2], type = FLOAT32\<rparr>
   \<and> \<not> narrower (type \<lparr>shape = [2], type = FLOAT32\<rparr>) (type \<lparr>shape = [2], type = FLOAT32\<rparr>)
   \<and> binary_op \<lparr>DEBUG_CUNUMERIC = False, NDEBUG = False\<rparr> (completes :: int call \<Rightarrow> error option) ADD
      \<lparr>shape = [2], type = FLOAT32\<rparr> \<lparr>shape = [2], type = FLOAT64\<rparr> (Some \<lparr>shape = [2], type = FLOAT64\<rparr>)
    = (Inr \<lparr>shape = [2], type = FLOAT64\<rparr>,
       [Called (BinaryOpCall \<lparr>shape = [2], type = FLOAT64\<rparr> ADD
                  \<lparr>shape = [2], type = FLOAT32\<rparr> \<lparr>shape = [2], type = FLOAT64\<rparr>)])"
proof -
  have 2: "binary_op \<lparr>DEBUG_CUNUMERIC = False, NDEBUG = False\<rparr> (completes :: int call \<Rightarrow> error option) ADD
      \<lparr>shape = [2], type = FLOAT32\<rparr> \<lparr>shape = [2], type = FLOAT64\<rparr> (Some \<lparr>shape = [2], type = FLOAT64\<rparr>)
    = (Inr \<lparr>shape = [2], type = FLOAT64\<rparr>,
       [Called (BinaryOpCall \<lparr>shape = [2], type = FLOAT64\<rparr> ADD
                  \<lparr>shape = [2], type = FLOAT32\<rparr> \<lparr>shape = [2], type = FLOAT64\<rparr>)])"
    by (simp add: binary_op_def call_and_return_def completes_def)
  show ?thesis
    using binary_op_example 2
      binary_op_output_type [of "\<lparr>DEBUG_CUNUMERIC = False, NDEBUG = False\<rparr>" "completes :: int call \<Rightarrow> error option" ADD
        "\<lparr>shape = [2], type = FLOAT32\<rparr>" "\<lparr>shape = [2], type = FLOAT64\<rparr>"
        "\<lparr>shape = [2], type = FLOAT32\<rparr>"
        "[Created \<lparr>shape = [2], type = FLOAT32\<rparr>,
          Called (BinaryOpCall \<lparr>shape = [2], type = FLOAT32\<rparr> ADD
                  \<lparr>shape = [2], type = FLOAT32\<rparr> \<lparr>shape = [2], type = FLOAT64\<rparr>)]"
        "\<lparr>shape = [2], type = FLOAT64\<rparr>"]
    by simp
qed

text \<open>
  Adding a 64-bit floating-point array to a 32-bit one without an output handle gives a
  32-bit array, narrower than the second operand.
\<close>

theorem binary_op_narrows_counterexample:
  "binary_op \<lparr>DEBUG_CUNUMERIC = False, NDEBUG = False\<rparr> (completes :: int call \<Rightarrow> error option) ADD
      \<lparr>shape = [2], type = FLOAT32\<rparr> \<lparr>shape = [2], type = FLOAT64\<rparr> None
    = (Inr \<lparr>shape = [2], type = FLOAT32\<rparr>,
       [Created \<lparr>shape = [2], type = FLOAT32\<rparr>,
        Called (BinaryOpCall \<lparr>shape = [2], type = FLOAT32\<rparr> ADD
                  \<lparr>shape = [2], type = FLOAT32\<rparr> \<lparr>shape = [2], type = FLOAT64\<rparr>)])
   \<and> narrower (type \<lparr>shape = [2], type = FLOAT32\<rparr>) (type \<lparr>shape = [2], type = FLOAT64\<rparr>)"
  by (simp add: binary_op_example narrower_def)

text \<open>
  Claim C8. For \<open>trilu\<close>, and so for \<open>tril\<close> and \<open>triu\<close>: an input of rank 0 fails
  with \<open>std::invalid_argument\<close> before any array is created or any method is called; an
  input of rank 1 and length \<open>n\<close> gets a new output array of shape \<open>(n, n)\<close>; an input of
  rank 2 or more gets a new output array of its own shape. The output array has the
  element type of the input and is returned when the method called on it completes.
\<close>

theorem trilu_ranks:
  "(dim rhs = 0 \<longrightarrow>
      trilu nd rhs k lower = (Inl (InvalidArgument ''Dim of input array must be > 0''), []))
   \<and> (shape rhs = [n] \<longrightarrow>
      trilu nd rhs k lower =
        call_and_return nd (TriluCall \<lparr>shape = [n, n], type = type rhs\<rparr> rhs k lower)
          \<lparr>shape = [n, n], type = type rhs\<rparr> [Created \<lparr>shape = [n, n], type = type rhs\<rparr>])
   \<and> (2 \<le> dim rhs \<longrightarrow>
      trilu nd rhs k lower =
        call_and_return nd (TriluCall \<lparr>shape = shape rhs, type = type rhs\<rparr> rhs k lower)
          \<lparr>shape = shape rhs, type = type rhs\<rparr> [Created \<lparr>shape = shape rhs, type = type rhs\<rparr>])
   \<and> tril nd rhs k = trilu nd rhs k True
   \<and> triu nd rhs k = trilu nd rhs k False"
  by (simp add: trilu_def tril_def triu_def dim_def create_array_def Let_def)

theorem trilu_ranks_witness:
  "dim \<lparr>shape = [], type = FLOAT64\<rparr> = 0
   \<and> tril (completes :: int call \<Rightarrow> error option) \<lparr>shape = [], type = FLOAT64\<rparr> 0
       = (Inl (InvalidArgument ''Dim of input array must be > 0''), [])
   \<and> shape \<lparr>shape = [3], type = INT32\<rparr> = [3]
   \<and> triu (completes :: int call \<Rightarrow> error option) \<lparr>shape = [3], type = INT32\<rparr> 1
       = (Inr \<lparr>shape = [3, 3], type = INT32\<rparr>,
          [Created \<lparr>shape = [3, 3], type = INT32\<rparr>,
           Called (TriluCall \<lparr>shape = [3, 3], type = INT32\<rparr> \<lparr>shape = [3], type = INT32\<rparr> 1 False)])
   \<and> 2 \<le> dim \<lparr>shape = [2, 4, 5], type = FLOAT32\<rparr>
   \<and> tril (completes :: int call \<Rightarrow> error option) \<lparr>shape = [2, 4, 5], type = FLOAT32\<rparr> (- 1)
       = (Inr \<lparr>shape = [2, 4, 5], type = FLOAT32\<rparr>,
          [Created \<lparr>shape = [2, 4, 5], type = FLOAT32\<rparr>,
           Called (TriluCall \<lparr>shape = [2, 4, 5], type = FLOAT32\<rparr>
                     \<lparr>shape = [2, 4, 5], type = FLOAT32\<rparr> (- 1) True)])"
  using trilu_ranks [of "\<lparr>shape = [], type = FLOAT64\<rparr>" "completes :: int call \<Rightarrow> error option" 0 True 0]
    trilu_ranks [of "\<lparr>shape = [3], type = INT32\<rparr>" "completes :: int call \<Rightarrow> error option" 1 False 3]
    trilu_ranks [of "\<lparr>shape = [2, 4, 5], type = FLOAT32\<rparr>" "completes :: int call \<Rightarrow> error option" "- 1" True 0]
  by (simp add: dim_def call_and_return_def completes_def)

text \<open>
  Claim C10. \<open>zeros\<close> called with a null type creates, fills and returns an array of
  64-bit floating-point elements, and \<open>random\<close> always creates and returns an array of
  64-bit floating-point elements: every array either of them creates or returns has that
  type, and each returns such an array of the requested shape when the method it calls
  completes.
\<close>

theorem zeros_random_float64:
  "(fst (zeros (nd :: ('v::zero) call \<Rightarrow> error option) sh None) = Inr out
      \<longrightarrow> type out = FLOAT64 \<and> shape out = sh)
   \<and> (fst (random nd sh) = Inr out' \<longrightarrow> type out' = FLOAT64 \<and> shape out' = sh)
   \<and> (\<forall>a. Created a \<in> set (snd (zeros nd sh None)) \<longrightarrow> type a = FLOAT64)
   \<and> (\<forall>a. Created a \<in> set (snd (random nd sh)) \<longrightarrow> type a = FLOAT64)
   \<and> fst (zeros (completes :: 'v call \<Rightarrow> error option) sh None)
       = Inr \<lparr>shape = sh, type = FLOAT64\<rparr>
   \<and> fst (random (completes :: 'v call \<Rightarrow> error option) sh)
       = Inr \<lparr>shape = sh, type = FLOAT64\<rparr>"
  by (auto simp: zeros_def random_def full_def type_dispatch_def generate_zero_fn_def
      create_array_def call_and_return_def completes_def Let_def split: option.splits)

theorem zeros_random_float64_witness:
  "fst (zeros (completes :: int call \<Rightarrow> error option) [2, 3] None) = Inr \<lparr>shape = [2, 3], type = FLOAT64\<rparr>
   \<and> type \<lparr>shape = [2, 3], type = FLOAT64\<rparr> = FLOAT64
   \<and> fst (random (completes :: int call \<Rightarrow> error option) [4]) = Inr \<lparr>shape = [4], type = FLOAT64\<rparr>
   \<and> Created \<lparr>shape = [2, 3], type = FLOAT64\<rparr> \<in> set (snd (zeros (completes :: int call \<Rightarrow> error option) [2, 3] None))
   \<and> Created \<lparr>shape = [4], type = FLOAT64\<rparr> \<in> set (snd (random (completes :: int call \<Rightarrow> error option) [4]))"
proof -
  have z: "snd (zeros (completes :: int call \<Rightarrow> error option) [2, 3] None)
      = [Created \<lparr>shape = [2, 3], type = FLOAT64\<rparr>,
         Called (FillCall \<lparr>shape = [2, 3], type = FLOAT64\<rparr> (Scalar FLOAT64 0) False)]"
    by (simp add: zeros_def full_def type_dispatch_def generate_zero_fn_def
        create_array_def call_and_return_def Let_def)
  have r: "snd (random (completes :: int call \<Rightarrow> error option) [4])
      = [Created \<lparr>shape = [4], type = FLOAT64\<rparr>, Called (RandomCall \<lparr>shape = [4], type = FLOAT64\<rparr> UNIFORM)]"
    by (simp add: random_def create_array_def call_and_return_def Let_def)
  show ?thesis
    using zeros_random_float64 [where nd = "completes :: int call \<Rightarrow> error option"
        and sh = "[2, 3]" and out = "\<lparr>shape = [2, 3], type = FLOAT64\<rparr>"
        and out' = "\<lparr>shape = [2, 3], type = FLOAT64\<rparr>"]
      zeros_random_float64 [where nd = "completes :: int call \<Rightarrow> error option"
        and sh = "[4]" and out = "\<lparr>shape = [4], type = FLOAT64\<rparr>"
        and out' = "\<lparr>shape = [4], type = FLOAT64\<rparr>"]
      z r
    by simp
qed

text \<open>
  Claim C7, as the code has it. When either operand of \<open>dot\<close> has a rank other than 2, or
  the column count of the first differs from the row count of the second, \<open>dot\<close> writes a
  diagnostic to standard error and runs \<open>LEGATE_ABORT\<close>, before any array is created or
  any method is called. The process ends there: no exception is thrown, and nothing
  propagates to the caller.
\<close>

theorem dot_aborts:
  assumes "dim rhs1 \<noteq> 2 \<or> dim rhs2 \<noteq> 2 \<or> shape rhs1 ! 1 \<noteq> shape rhs2 ! 0"
  shows "\<exists>f args. dot nd rhs1 rhs2 = (Inl (LegateAbort f args), [])
           \<and> \<not> is_exception (LegateAbort f args)"
  using assms by (auto simp: dot_def Let_def)

theorem dot_aborts_witness:
  "dim \<lparr>shape = [3], type = FLOAT64\<rparr> \<noteq> 2
   \<and> (\<exists>f args. dot (completes :: int call \<Rightarrow> error option) \<lparr>shape = [3], type = FLOAT64\<rparr>
          \<lparr>shape = [3], type = FLOAT64\<rparr> = (Inl (LegateAbort f args), [])
        \<and> \<not> is_exception (LegateAbort f args))
   \<and> shape \<lparr>shape = [2, 3], type = FLOAT64\<rparr> ! 1 \<noteq> shape \<lparr>shape = [2, 3], type = FLOAT64\<rparr> ! 0
   \<and> (\<exists>f args. dot (completes :: int call \<Rightarrow> error option) \<lparr>shape = [2, 3], type = FLOAT64\<rparr>
          \<lparr>shape = [2, 3], type = FLOAT64\<rparr> = (Inl (LegateAbort f args), [])
        \<and> \<not> is_exception (LegateAbort f args))"
proof -
  have h: "dim \<lparr>shape = [3], type = FLOAT64\<rparr> \<noteq> 2" 
    by (simp add: dim_def)
  have g: "shape \<lparr>shape = [2, 3], type = FLOAT64\<rparr> ! 1 \<noteq> shape \<lparr>shape = [2, 3], type = FLOAT64\<rparr> ! 0"
    by simp
  show ?thesis
    using h g
      dot_aborts [of "\<lparr>shape = [3], type = FLOAT64\<rparr>" "\<lparr>shape = [3], type = FLOAT64\<rparr>"
        "completes :: int call \<Rightarrow> error option"]
      dot_aborts [of "\<lparr>shape = [2, 3], type = FLOAT64\<rparr>" "\<lparr>shape = [2, 3], type = FLOAT64\<rparr>"
        "completes :: int call \<Rightarrow> error option"]
    by blast
qed

text \<open>
  The product of two 2 by 3 matrices, and of two vectors of length 3: each ends in
  \<open>LEGATE_ABORT\<close>, which is not an exception.
\<close>

theorem dot_aborts_counterexample:
  "dot (completes :: int call \<Rightarrow> error option) \<lparr>shape = [2, 3], type = FLOAT64\<rparr>
      \<lparr>shape = [2, 3], type = FLOAT64\<rparr>
     = (Inl (LegateAbort (''Incompatible matrices: (%zd, %zd) x (%zd, %zd)'' @ [CHR 0x0A])
               [2, 3, 2, 3]), [])
   \<and> \<not> is_exception (LegateAbort (''Incompatible matrices: (%zd, %zd) x (%zd, %zd)'' @ [CHR 0x0A])
               [2, 3, 2, 3])
   \<and> dot (completes :: int call \<Rightarrow> error option) \<lparr>shape = [3], type = FLOAT64\<rparr>
      \<lparr>shape = [3], type = FLOAT64\<rparr>
     = (Inl (LegateAbort ''cunumeric::dot only supports matrices now'' []), [])
   \<and> \<not> is_exception (LegateAbort ''cunumeric::dot only supports matrices now'' [])"
  by (simp add: dot_def dim_def Let_def)

text \<open>
  Two matrices that fit are multiplied into a new array.
\<close>

lemma dot_example:
  "dot (completes :: int call \<Rightarrow> error option) \<lparr>shape = [2, 3], type = FLOAT64\<rparr>
      \<lparr>shape = [3, 4], type = FLOAT64\<rparr>
     = (Inr \<lparr>shape = [2, 4], type = FLOAT64\<rparr>,
        [Created \<lparr>shape = [2, 4], type = FLOAT64\<rparr>,
         Called (DotCall \<lparr>shape = [2, 4], type = FLOAT64\<rparr> \<lparr>shape = [2, 3], type = FLOAT64\<rparr>
           \<lparr>shape = [3, 4], type = FLOAT64\<rparr>)])"
  by (simp add: dot_def dim_def Let_def create_array_def call_and_return_def completes_def)

section \<open>Properties of the Cholesky task\<close>

text \<open>
  A body leaves in the buffer what the routine left there, and returns normally when the
  routine reports status 0.
\<close>

lemma PotrfImplBody_buffer:
  "fst (PotrfImplBody_CPU_FLOAT32 spotrf a m n) = fst (spotrf (CHR ''L'') n a m)"
  "fst (PotrfImplBody_CPU_FLOAT64 dpotrf b m n) = fst (dpotrf (CHR ''L'') n b m)"
  "fst (PotrfImplBody_CPU_COMPLEX64 cpotrf c m n) = fst (cpotrf (CHR ''L'') n c m)"
  "fst (PotrfImplBody_CPU_COMPLEX128 zpotrf d m n) = fst (zpotrf (CHR ''L'') n d m)"
  by (simp_all add: PotrfImplBody_CPU_FLOAT32_def PotrfImplBody_CPU_FLOAT64_def
      PotrfImplBody_CPU_COMPLEX64_def PotrfImplBody_CPU_COMPLEX128_def Let_def split: prod.splits)

lemma PotrfImplBody_returns:
  "snd (spotrf (CHR ''L'') n a m) = 0 \<Longrightarrow> snd (PotrfImplBody_CPU_FLOAT32 spotrf a m n) = None"
  "snd (dpotrf (CHR ''L'') n b m) = 0 \<Longrightarrow> snd (PotrfImplBody_CPU_FLOAT64 dpotrf b m n) = None"
  "snd (cpotrf (CHR ''L'') n c m) = 0 \<Longrightarrow> snd (PotrfImplBody_CPU_COMPLEX64 cpotrf c m n) = None"
  "snd (zpotrf (CHR ''L'') n d m) = 0 \<Longrightarrow> snd (PotrfImplBody_CPU_COMPLEX128 zpotrf d m n) = None"
  by (auto simp: PotrfImplBody_CPU_FLOAT32_def PotrfImplBody_CPU_FLOAT64_def
      PotrfImplBody_CPU_COMPLEX64_def PotrfImplBody_CPU_COMPLEX128_def Let_def split: prod.splits)

text \<open>
  Claim C3, as the code has it. For each of the four element types (32-bit and 64-bit
  floating point, 64-bit and 128-bit complex), when the LAPACK routine reports a nonzero
  status the kernel body throws \<open>legate::TaskException\<close> with the message "Matrix is not
  positive definite" and does not return. The routine has worked in place by then: the
  buffer of the caller is left as the routine left it, neither restored nor cleared.
\<close>

theorem PotrfImplBody_throws:
  "(snd (spotrf (CHR ''L'') n a m) \<noteq> 0 \<longrightarrow>
      PotrfImplBody_CPU_FLOAT32 spotrf a m n
        = (fst (spotrf (CHR ''L'') n a m),
           Some (TaskException ''Matrix is not positive definite'')))
   \<and> (snd (dpotrf (CHR ''L'') n b m) \<noteq> 0 \<longrightarrow>
      PotrfImplBody_CPU_FLOAT64 dpotrf b m n
        = (fst (dpotrf (CHR ''L'') n b m),
           Some (TaskException ''Matrix is not positive definite'')))
   \<and> (snd (cpotrf (CHR ''L'') n c m) \<noteq> 0 \<longrightarrow>
      PotrfImplBody_CPU_COMPLEX64 cpotrf c m n
        = (fst (cpotrf (CHR ''L'') n c m),
           Some (TaskException ''Matrix is not positive definite'')))
   \<and> (snd (zpotrf (CHR ''L'') n d m) \<noteq> 0 \<longrightarrow>
      PotrfImplBody_CPU_COMPLEX128 zpotrf d m n
        = (fst (zpotrf (CHR ''L'') n d m),
           Some (TaskException ''Matrix is not positive definite'')))"
  by (simp add: PotrfImplBody_CPU_FLOAT32_def PotrfImplBody_CPU_FLOAT64_def
      PotrfImplBody_CPU_COMPLEX64_def PotrfImplBody_CPU_COMPLEX128_def Let_def split: prod.splits)

text \<open>
  A routine that does to the matrix ((1, 2), (2, 1)) what the factorization does before
  it gives up at the second pivot: it stores \<open>-3\<close> there and reports status 2.
\<close>

theorem PotrfImplBody_throws_witness:
  "snd (((\<lambda>uplo n a lda. (a[3 := - 3], 2)) :: int potrf_routine) (CHR ''L'') 2 [1, 2, 2, 1] 2) \<noteq> 0
   \<and> PotrfImplBody_CPU_FLOAT32 ((\<lambda>uplo n a lda. (a[3 := - 3], 2)) :: int potrf_routine)
        [1, 2, 2, 1] 2 2
       = ([1, 2, 2, - 3], Some (TaskException ''Matrix is not positive definite''))
   \<and> PotrfImplBody_CPU_FLOAT64 ((\<lambda>uplo n a lda. (a[3 := - 3], 2)) :: int potrf_routine)
        [1, 2, 2, 1] 2 2
       = ([1, 2, 2, - 3], Some (TaskException ''Matrix is not positive definite''))
   \<and> PotrfImplBody_CPU_COMPLEX64 ((\<lambda>uplo n a lda. (a[3 := - 3], 2)) :: int potrf_routine)
        [1, 2, 2, 1] 2 2
       = ([1, 2, 2, - 3], Some (TaskException ''Matrix is not positive definite''))
   \<and> PotrfImplBody_CPU_COMPLEX128 ((\<lambda>uplo n a lda. (a[3 := - 3], 2)) :: int potrf_routine)
        [1, 2, 2, 1] 2 2
       = ([1, 2, 2, - 3], Some (TaskException ''Matrix is not positive definite''))"
proof -
  have h: "snd (((\<lambda>uplo n a lda. (a[3 := - 3], 2)) :: int potrf_routine) (CHR ''L'') 2 [1, 2, 2, 1] 2) \<noteq> 0"
    by simp
  have u: "[1, 2, 2, 1 :: int][3 := - 3] = [1, 2, 2, - 3]"
    by (simp add: numeral_3_eq_3)
  show ?thesis
    using h u PotrfImplBody_throws [of "(\<lambda>uplo n a lda. (a[3 := - 3], 2)) :: int potrf_routine" 2 "[1, 2, 2, 1]" 2
        "(\<lambda>uplo n a lda. (a[3 := - 3], 2)) :: int potrf_routine" "[1, 2, 2, 1]"
        "(\<lambda>uplo n a lda. (a[3 := - 3], 2)) :: int potrf_routine" "[1, 2, 2, 1]"
        "(\<lambda>uplo n a lda. (a[3 := - 3], 2)) :: int potrf_routine" "[1, 2, 2, 1]"]
    by simp
qed

text \<open>
  The same routine on ((1, 2), (2, 1)): the body throws, and the buffer it was given no
  longer holds the matrix but what the routine has written over it.
\<close>

theorem PotrfImplBody_overwrites_counterexample:
  "PotrfImplBody_CPU_FLOAT64 ((\<lambda>uplo n a lda. (a[3 := - 3], 2)) :: int potrf_routine)
        [1, 2, 2, 1] 2 2
     = ([1, 2, 2, - 3], Some (TaskException ''Matrix is not positive definite''))
   \<and> [1, 2, 2, - 3] \<noteq> [1, 2, 2, 1 :: int]"
  by (simp add: PotrfImplBody_CPU_FLOAT64_def Let_def numeral_3_eq_3)

text \<open>
  Claim C6. In a build with \<open>LEGATE_USE_OPENMP\<close>, the CPU variant of the Cholesky task sets
  the thread count of the external library to one and only then runs the factorization:
  \<open>potrf_template\<close> starts in a state whose thread count is 1, and a kernel that hands
  the thread count in force to the library hands it 1.
\<close>

theorem cpu_variant_pins_threads:
  "PotrfTask_cpu_variant True potrf_template context st
     = potrf_template context (st\<lparr>num_threads := 1\<rparr>)
   \<and> num_threads (st\<lparr>num_threads := 1\<rparr>) = 1
   \<and> PotrfTask_cpu_variant True (\<lambda>ctx s. body (num_threads s) ctx) context st = body 1 context"
  by (simp add: PotrfTask_cpu_variant_def openblas_set_num_threads_def)

text \<open>
  Without \<open>LEGATE_USE_OPENMP\<close> the variant leaves the thread count as it finds it.
\<close>

lemma cpu_variant_no_openmp:
  "PotrfTask_cpu_variant False potrf_template context st = potrf_template context st"
  by (simp add: PotrfTask_cpu_variant_def)

section \<open>Properties of the half-precision matrix-vector product\<close>

text \<open>
  Claim C5. For every \<open>m\<close>, \<open>n\<close>, row stride and both orientations, the half-precision
  kernel gives what the policy of section 4.3 gives: the operands promoted to single
  precision, the single-precision kernel run on the promoted buffers (the promoted
  matrix is dense, so its rows are \<open>n\<close> apart), and the result narrowed back to half
  precision.
\<close>

theorem half_gemv_promotes:
  "MatVecMulImplBody_OMP_HALF u cblas_sgemv m n lhs rhs1 rhs2 rhs_stride vec_on_lhs
     = spec_promoted_gemv u cblas_sgemv m n lhs rhs1 rhs2 rhs_stride vec_on_lhs"
  by (cases vec_on_lhs)
     (simp_all add: MatVecMulImplBody_OMP_HALF_def spec_promoted_gemv_def
        MatVecMulImplBody_OMP_FLOAT_def promote_vector_def promote_matrix_def Let_def)

text \<open>
  The overload with a single-precision \<open>lhs\<close> promotes and runs the single-precision
  kernel in the same way; its result is not narrowed.
\<close>

lemma half_gemv_float_lhs:
  "MatVecMulImplBody_OMP_HALF_float_lhs u cblas_sgemv m n lhs rhs1 rhs2 rhs_stride vec_on_lhs
     = MatVecMulImplBody_OMP_FLOAT cblas_sgemv m n lhs
         (if vec_on_lhs then promote_vector u rhs1 m else promote_matrix u rhs1 m n rhs_stride)
         (if vec_on_lhs then promote_matrix u rhs2 m n rhs_stride else promote_vector u rhs2 n)
         n vec_on_lhs"
  by (cases vec_on_lhs)
     (simp_all add: MatVecMulImplBody_OMP_HALF_float_lhs_def
        MatVecMulImplBody_OMP_FLOAT_def promote_vector_def promote_matrix_def Let_def)

end
